theory Spec2Isabelle
  imports Main
begin

section \<open>Data model\<close>

text \<open>
  Go strings are byte sequences; they are modelled as \<open>string\<close> (a list of 8-bit
  characters). A value of type \<open>interface{}\<close> that travels in a JSON payload is a
  \<open>json\<close> tree; \<open>JNull\<close> is the nil interface, and a number is an integer, as the
  \<open>int64\<close> that the code writes is. A Go \<open>map[string]T\<close> is an
  association list read with \<open>map_of\<close> and written with \<open>map_set\<close>, which keeps
  one entry for each key. A nil map and an empty map are both \<open>[]\<close>: the code only reads
  maps, ranges over them and marshals them.
\<close>

datatype json =
    JNull
  | JBool bool
  | JInt int
  | JString string
  | JArray "json list"
  | JObject "(string \<times> json) list"

type_synonym gomap = "(string \<times> json) list"

fun map_set :: "('k \<times> 'v) list \<Rightarrow> 'k \<Rightarrow> 'v \<Rightarrow> ('k \<times> 'v) list" where
  "map_set [] k v = [(k, v)]"
| "map_set ((k', v') # m) k v = (if k' = k then (k, v) # m else (k', v') # map_set m k v)"

text \<open>Indexing a Go map: a missing key gives the zero value, for \<open>interface{}\<close> nil.\<close>

definition map_index :: "gomap \<Rightarrow> string \<Rightarrow> json" where
  "map_index m k = (case map_of m k of None \<Rightarrow> JNull | Some v \<Rightarrow> v)"

text \<open>
  \<open>time.Time\<close> is an instant: seconds since the Unix epoch and nanoseconds within the
  second. \<open>IsZero\<close> holds of January 1, year 1, 00:00:00 UTC, which is 62135596800
  seconds before the epoch. \<open>UTC()\<close> changes the location only, not the instant.
\<close>

record Time =
  unixSec :: int
  nsec :: nat

definition IsZero :: "Time \<Rightarrow> bool" where
  "IsZero t = (unixSec t = - 62135596800 \<and> nsec t = 0)"

definition Unix :: "Time \<Rightarrow> int" where
  "Unix t = unixSec t"

definition time_Unix :: "int \<Rightarrow> nat \<Rightarrow> Time" where
  "time_Unix s n = \<lparr>unixSec = s, nsec = n\<rparr>"

text \<open>The struct \<open>Customer\<close> of customer.go.\<close>

record Customer =
  Attributes :: gomap
  CioID :: string
  CreatedAt :: "Time option"
  Email :: string
  ID :: string

text \<open>
  \<open>AddOrUpdate\<close> in customerio.go also reads \<open>req.Unsubscribed\<close>, a \<open>*bool\<close>
  field that the declaration of \<open>Customer\<close> in customer.go does not have; the request it
  takes is the record extended by that field.
\<close>

record CustomerReq = Customer +
  Unsubscribed :: "bool option"

definition Customer_zero :: Customer where
  "Customer_zero = \<lparr>Attributes = [], CioID = [], CreatedAt = None, Email = [], ID = []\<rparr>"

type_synonym IdentifierType = string

definition IdentifierTypeID :: IdentifierType where "IdentifierTypeID = ''id''"
definition IdentifierTypeEmail :: IdentifierType where "IdentifierTypeEmail = ''email''"
definition IdentifierTypeCioID :: IdentifierType where "IdentifierTypeCioID = ''cio_id''"
definition IdentifierTypeName :: IdentifierType where "IdentifierTypeName = ''name''"
definition IdentifierTypeCioObjectID :: IdentifierType where
  "IdentifierTypeCioObjectID = ''cio_object_id''"
definition IdentifierTypeObjectID :: IdentifierType where
  "IdentifierTypeObjectID = ''object_id''"

record Identifier =
  Type :: IdentifierType
  Value :: string

subsection \<open>The bulk search request of customer.go\<close>

record attribute =
  Field :: string
  Operator :: string
  Value_a :: string

record attributeCondition =
  Attribute :: attribute

record filterCondition =
  Or :: "attributeCondition list"
  And :: "attributeCondition list"

record customerSearchRequest =
  Filter :: filterCondition

text \<open>What the code passes as a request body (\<open>interface{}\<close>); nil is \<open>None\<close>.\<close>

datatype body = BodyJSON json | BodySearch customerSearchRequest

subsection \<open>Errors\<close>

text \<open>
  \<open>ParamError\<close> and \<open>CustomerIOError\<close> (status, url, body) are the repository's error
  types, \<open>ErrCustomerNotFound\<close> its sentinel, \<open>ErrorString\<close> an \<open>errors.New\<close> value.
  \<open>LibError\<close> is an error that a function of Go's library or the transport returned,
  \<open>Panic\<close> a run-time panic.
\<close>

datatype error =
    ParamError string
  | CustomerIOError int string string
  | ErrCustomerNotFound
  | ErrorString string
  | LibError string
  | Panic string

definition StatusOK :: int where "StatusOK = 200"
definition StatusNotFound :: int where "StatusNotFound = 404"

section \<open>Functions of Go's library that the code calls\<close>

subsection \<open>\<open>strconv.Itoa\<close> and the verb \<open>%d\<close>\<close>

definition digit_char :: "nat \<Rightarrow> char" where
  "digit_char d = char_of (48 + d)"

function decimal :: "nat \<Rightarrow> string" where
  "decimal n = (if n < 10 then [digit_char n] else decimal (n div 10) @ [digit_char (n mod 10)])"
  by pat_completeness auto
termination
  by (relation "measure id") auto

definition Itoa :: "int \<Rightarrow> string" where
  "Itoa i = (if i < 0 then CHR ''-'' # decimal (nat (- i)) else decimal (nat i))"

subsection \<open>\<open>encoding/base64\<close>\<close>

text \<open>
  An encoding is its 64-character alphabet; both encodings the claims speak of pad with
  \<open>=\<close>. \<open>EncodeToString\<close> turns each group of three bytes into four characters
  (\<open>val>>18&0x3F\<close> is \<open>val div 2^18 mod 64\<close>; \<open>val\<close> is below \<open>2^24\<close>, far from
  the width of \<open>uint\<close>) and pads a last group of one or two bytes.
\<close>

definition encodeStd :: string where
  "encodeStd = ''ABCDEFGHIJKLMNOPQRSTUVWXYZabcdefghijklmnopqrstuvwxyz0123456789+/''"

definition encodeURL :: string where
  "encodeURL = ''ABCDEFGHIJKLMNOPQRSTUVWXYZabcdefghijklmnopqrstuvwxyz0123456789-_''"

fun EncodeToString :: "string \<Rightarrow> string \<Rightarrow> string" where
  "EncodeToString enc (a # b # c # src) =
     (let val = of_char a * 65536 + of_char b * 256 + (of_char c :: nat)
      in enc ! (val div 262144 mod 64) # enc ! (val div 4096 mod 64) #
         enc ! (val div 64 mod 64) # enc ! (val mod 64) # EncodeToString enc src)"
| "EncodeToString enc [a, b] =
     (let val = of_char a * 65536 + of_char b * (256 :: nat)
      in [enc ! (val div 262144 mod 64), enc ! (val div 4096 mod 64),
          enc ! (val div 64 mod 64), CHR ''=''])"
| "EncodeToString enc [a] =
     (let val = of_char a * (65536 :: nat)
      in [enc ! (val div 262144 mod 64), enc ! (val div 4096 mod 64), CHR ''='', CHR ''=''])"
| "EncodeToString enc [] = []"

text \<open>
  \<open>DecodeString\<close>: the position of a character in the alphabet, if it has one; four
  characters give three bytes; padding is accepted in the last group only; carriage
  returns and line feeds are skipped. Anything else is a \<open>CorruptInputError\<close>.
\<close>

fun decodeMap :: "string \<Rightarrow> char \<Rightarrow> nat option" where
  "decodeMap [] c = None"
| "decodeMap (x # enc) c =
     (if x = c then Some 0 else (case decodeMap enc c of None \<Rightarrow> None | Some i \<Rightarrow> Some (Suc i)))"

fun decodeQuanta :: "string \<Rightarrow> string \<Rightarrow> string option" where
  "decodeQuanta enc [] = Some []"
| "decodeQuanta enc [a, b, c, d] =
     (case (decodeMap enc a, decodeMap enc b) of
        (Some i, Some j) \<Rightarrow>
          (if c = CHR ''='' \<and> d = CHR ''='' then Some [char_of ((i * 64 + j) div 16)]
           else (case decodeMap enc c of
                   None \<Rightarrow> None
                 | Some k \<Rightarrow>
                     (if d = CHR ''=''
                      then Some [char_of (((i * 64 + j) * 64 + k) div 1024),
                                 char_of (((i * 64 + j) * 64 + k) div 4)]
                      else (case decodeMap enc d of
                              None \<Rightarrow> None
                            | Some l \<Rightarrow>
                                Some [char_of ((((i * 64 + j) * 64 + k) * 64 + l) div 65536),
                                      char_of ((((i * 64 + j) * 64 + k) * 64 + l) div 256),
                                      char_of ((((i * 64 + j) * 64 + k) * 64 + l))]))))
      | _ \<Rightarrow> None)"
| "decodeQuanta enc (a # b # c # d # src) =
     (case (decodeMap enc a, decodeMap enc b, decodeMap enc c, decodeMap enc d) of
        (Some i, Some j, Some k, Some l) \<Rightarrow>
          (case decodeQuanta enc src of
             None \<Rightarrow> None
           | Some out \<Rightarrow>
               Some (char_of ((((i * 64 + j) * 64 + k) * 64 + l) div 65536) #
                     char_of ((((i * 64 + j) * 64 + k) * 64 + l) div 256) #
                     char_of ((((i * 64 + j) * 64 + k) * 64 + l)) # out))
      | _ \<Rightarrow> None)"
| "decodeQuanta enc _ = None"

definition DecodeString :: "string \<Rightarrow> string \<Rightarrow> string option" where
  "DecodeString enc s = decodeQuanta enc (filter (\<lambda>c. c \<noteq> CHR 0x0D \<and> c \<noteq> CHR 0x0A) s)"

subsection \<open>\<open>net/url\<close>: \<open>PathEscape\<close>, \<open>QueryEscape\<close>\<close>

datatype encoding = encodePathSegment | encodeQueryComponent

definition isAlnum :: "char \<Rightarrow> bool" where
  "isAlnum c = (let n = (of_char c :: nat)
                in (97 \<le> n \<and> n \<le> 122) \<or> (65 \<le> n \<and> n \<le> 90) \<or> (48 \<le> n \<and> n \<le> 57))"

definition shouldEscape :: "char \<Rightarrow> encoding \<Rightarrow> bool" where
  "shouldEscape c mode =
     (if isAlnum c then False
      else if c \<in> set ''-_.~'' then False
      else if c \<in> set ''$&+,/:;=?@'' then
        (case mode of
           encodePathSegment \<Rightarrow> c = CHR ''/'' \<or> c = CHR '';'' \<or> c = CHR '','' \<or> c = CHR ''?''
         | encodeQueryComponent \<Rightarrow> True)
      else True)"

definition upperhex :: string where
  "upperhex = ''0123456789ABCDEF''"

definition escape :: "string \<Rightarrow> encoding \<Rightarrow> string" where
  "escape s mode =
     concat (map (\<lambda>c. if c = CHR '' '' \<and> mode = encodeQueryComponent then ''+''
                      else if shouldEscape c mode
                      then [CHR ''%'', upperhex ! (of_char c div 16), upperhex ! (of_char c mod 16)]
                      else [c]) s)"

definition PathEscape :: "string \<Rightarrow> string" where
  "PathEscape s = escape s encodePathSegment"

definition QueryEscape :: "string \<Rightarrow> string" where
  "QueryEscape s = escape s encodeQueryComponent"

text \<open>\<open>url.Values.Encode\<close> of a value set that holds one key with one value.\<close>

definition Values_Encode :: "string \<Rightarrow> string \<Rightarrow> string" where
  "Values_Encode k v = QueryEscape k @ ''='' @ QueryEscape v"

subsection \<open>Library functions taken as parameters\<close>

text \<open>
  The remaining library functions are parameters of the model, so that every theorem
  holds whatever they compute. A function that returns \<open>(T, error)\<close> is a function into
  \<open>error + T\<close>. \<open>http_NewRequest method url\<close> is the error of
  \<open>http.NewRequestWithContext\<close>, if it rejects the method or the URL. The
  \<open>Unmarshal\<close> functions are \<open>json.Unmarshal\<close> into the variable the code passes:
  the inner struct of \<open>searchResponse\<close> and \<open>attributesResponse\<close>, the open attribute
  map, the field \<open>Identifiers\<close>, the \<open>cio_id\<close> of each of the \<open>Results\<close>, the field
  \<open>IDs\<close>, and the attributes of an object. \<open>time_UnmarshalJSON\<close> reads the
  content of a JSON string as an RFC 3339 time, if it is one.
\<close>

record legacyAttributes =
  la_Attributes :: string
  la_CioID :: string
  la_CreatedAt :: string
  la_Email :: string
  la_ID :: string

record golib =
  json_Marshal :: "body \<Rightarrow> error + string"
  http_NewRequest :: "string \<Rightarrow> string \<Rightarrow> error option"
  strings_TrimSpace :: "string \<Rightarrow> string"
  strings_ToLower :: "string \<Rightarrow> string"
  fmt_Sprint :: "json \<Rightarrow> string"
  strconv_Unquote :: "string \<Rightarrow> error + string"
  strconv_Atoi :: "string \<Rightarrow> error + int"
  Unmarshal_attributes :: "string \<Rightarrow> error + legacyAttributes"
  Unmarshal_map :: "string \<Rightarrow> error + gomap"
  Unmarshal_identifiers :: "string \<Rightarrow> error + gomap list"
  Unmarshal_results :: "string \<Rightarrow> error + string list"
  Unmarshal_ids :: "string \<Rightarrow> error + string list"
  Unmarshal_object_attributes :: "string \<Rightarrow> error + gomap"
  time_UnmarshalJSON :: "string \<Rightarrow> Time option"

section \<open>The track client (customerio.go)\<close>

record Request =
  req_Method :: string
  req_URL :: string
  req_Header :: "(string \<times> string) list"
  req_Body :: "string option"

text \<open>A response: its status code and what \<open>ioutil.ReadAll\<close> makes of its body.\<close>

record Response =
  StatusCode :: int
  resp_Body :: "error + string"

text \<open>
  \<open>Client\<close> is the transport: \<open>Client.Do\<close> answers a request with a response or with
  an error. The network calls of an operation are the requests it handed to \<open>Client.Do\<close>,
  returned beside its result, in order.
\<close>

record CustomerIO =
  siteID :: string
  apiKey :: string
  URL :: string
  UserAgent :: string
  Client :: "Request \<Rightarrow> error + Response"

definition auth :: "CustomerIO \<Rightarrow> string" where
  "auth c = EncodeToString encodeURL (siteID c @ '':'' @ apiKey c)"

text \<open>
  \<open>request\<close> in two steps: \<open>newRequest\<close> is its first half, which marshals the body
  and builds the request with its headers; \<open>request\<close> adds the \<open>Authorization\<close>
  header, sends, reads the body and classifies the status.
\<close>

definition newRequest ::
  "golib \<Rightarrow> CustomerIO \<Rightarrow> string \<Rightarrow> string \<Rightarrow> body option \<Rightarrow> error + Request" where
  "newRequest L c method url body =
     (case body of
        Some b \<Rightarrow>
          (case json_Marshal L b of
             Inl err \<Rightarrow> Inl err
           | Inr j \<Rightarrow>
               (case http_NewRequest L method url of
                  Some err \<Rightarrow> Inl err
                | None \<Rightarrow>
                    Inr \<lparr>req_Method = method, req_URL = url,
                         req_Header = [(''User-Agent'', UserAgent c),
                                       (''Content-Type'', ''application/json''),
                                       (''Content-Length'', Itoa (int (length j)))],
                         req_Body = Some j\<rparr>))
      | None \<Rightarrow>
          (case http_NewRequest L method url of
             Some err \<Rightarrow> Inl err
           | None \<Rightarrow> Inr \<lparr>req_Method = method, req_URL = url, req_Header = [], req_Body = None\<rparr>))"

definition request ::
  "golib \<Rightarrow> CustomerIO \<Rightarrow> string \<Rightarrow> string \<Rightarrow> body option \<Rightarrow> (error + string) \<times> Request list"
  where
  "request L c method url body =
     (case newRequest L c method url body of
        Inl err \<Rightarrow> (Inl err, [])
      | Inr req0 \<Rightarrow>
          (let req = req0\<lparr>req_Header := req_Header req0 @ [(''Authorization'', ''Basic '' @ auth c)]\<rparr>
           in (case Client c req of
                 Inl err \<Rightarrow> (Inl err, [req])
               | Inr resp \<Rightarrow>
                   (case resp_Body resp of
                      Inl err \<Rightarrow> (Inl err, [req])
                    | Inr responseBody \<Rightarrow>
                        (if StatusCode resp \<noteq> StatusOK
                         then (Inl (CustomerIOError (StatusCode resp) url responseBody), [req])
                         else (Inr responseBody, [req]))))))"

text \<open>The methods that discard the body return the error alone (\<open>None\<close> is nil).\<close>

definition err_only :: "(error + 'a) \<times> Request list \<Rightarrow> error option \<times> Request list" where
  "err_only r = (case fst r of Inl err \<Rightarrow> (Some err, snd r) | Inr _ \<Rightarrow> (None, snd r))"

definition IdentifyCtx ::
  "golib \<Rightarrow> CustomerIO \<Rightarrow> string \<Rightarrow> gomap \<Rightarrow> error option \<times> Request list" where
  "IdentifyCtx L c customerID attributes =
     (if customerID = [] then (Some (ParamError ''customerID''), [])
      else err_only (request L c ''PUT''
             (URL c @ ''/api/v1/customers/'' @ PathEscape customerID)
             (Some (BodyJSON (JObject attributes)))))"

definition TrackCtx ::
  "golib \<Rightarrow> CustomerIO \<Rightarrow> string \<Rightarrow> string \<Rightarrow> gomap \<Rightarrow> error option \<times> Request list" where
  "TrackCtx L c customerID eventName data =
     (if customerID = [] then (Some (ParamError ''customerID''), [])
      else if eventName = [] then (Some (ParamError ''eventName''), [])
      else err_only (request L c ''POST''
             (URL c @ ''/api/v1/customers/'' @ PathEscape customerID @ ''/events'')
             (Some (BodyJSON (JObject [(''name'', JString eventName), (''data'', JObject data)])))))"

text \<open>
  \<open>TrackAnonymousCtx\<close> builds its payload before it sends it; \<open>anonymousPayload\<close> is
  that map.
\<close>

definition anonymousPayload :: "string \<Rightarrow> string \<Rightarrow> gomap \<Rightarrow> gomap" where
  "anonymousPayload anonymousID eventName data =
     (let payload = [(''name'', JString eventName), (''data'', JObject data)]
      in if anonymousID \<noteq> [] then map_set payload ''anonymous_id'' (JString anonymousID)
         else payload)"

definition TrackAnonymousCtx ::
  "golib \<Rightarrow> CustomerIO \<Rightarrow> string \<Rightarrow> string \<Rightarrow> gomap \<Rightarrow> error option \<times> Request list" where
  "TrackAnonymousCtx L c anonymousID eventName data =
     (if eventName = [] then (Some (ParamError ''eventName''), [])
      else err_only (request L c ''POST'' (URL c @ ''/api/v1/events'')
             (Some (BodyJSON (JObject (anonymousPayload anonymousID eventName data))))))"

definition DeleteCtx :: "golib \<Rightarrow> CustomerIO \<Rightarrow> string \<Rightarrow> error option \<times> Request list" where
  "DeleteCtx L c customerID =
     (if customerID = [] then (Some (ParamError ''customerID''), [])
      else err_only (request L c ''DELETE''
             (URL c @ ''/api/v1/customers/'' @ PathEscape customerID) None))"

definition AddDeviceCtx ::
  "golib \<Rightarrow> CustomerIO \<Rightarrow> string \<Rightarrow> string \<Rightarrow> string \<Rightarrow> gomap \<Rightarrow> error option \<times> Request list"
  where
  "AddDeviceCtx L c customerID deviceID platform data =
     (if customerID = [] then (Some (ParamError ''customerID''), [])
      else if deviceID = [] then (Some (ParamError ''deviceID''), [])
      else if platform = [] then (Some (ParamError ''platform''), [])
      else
        (let device = fold (\<lambda>(k, v) m. map_set m k v) data
                        [(''id'', JString deviceID), (''platform'', JString platform)]
         in err_only (request L c ''PUT''
              (URL c @ ''/api/v1/customers/'' @ PathEscape customerID @ ''/devices'')
              (Some (BodyJSON (JObject [(''device'', JObject device)]))))))"

definition DeleteDeviceCtx ::
  "golib \<Rightarrow> CustomerIO \<Rightarrow> string \<Rightarrow> string \<Rightarrow> error option \<times> Request list" where
  "DeleteDeviceCtx L c customerID deviceID =
     (if customerID = [] then (Some (ParamError ''customerID''), [])
      else if deviceID = [] then (Some (ParamError ''deviceID''), [])
      else err_only (request L c ''DELETE''
             (URL c @ ''/api/v1/customers/'' @ PathEscape customerID @ ''/devices/'' @
              PathEscape deviceID) None))"

definition kv :: "Identifier \<Rightarrow> gomap" where
  "kv ident = [(Type ident, JString (Value ident))]"

definition validate :: "golib \<Rightarrow> Identifier \<Rightarrow> error option" where
  "validate L ident =
     (if \<not> (Type ident = IdentifierTypeID \<or> Type ident = IdentifierTypeEmail \<or>
             Type ident = IdentifierTypeCioID)
      then Some (ErrorString ''invalid id type'')
      else if strings_TrimSpace L (Value ident) = [] then Some (ErrorString ''invalid id'')
      else None)"

definition MergeCustomersCtx ::
  "golib \<Rightarrow> CustomerIO \<Rightarrow> Identifier \<Rightarrow> Identifier \<Rightarrow> error option \<times> Request list" where
  "MergeCustomersCtx L c primary secondary =
     (if validate L primary \<noteq> None then (Some (ParamError ''primary''), [])
      else if validate L secondary \<noteq> None then (Some (ParamError ''secondary''), [])
      else err_only (request L c ''POST'' (URL c @ ''/api/v1/merge_customers'')
             (Some (BodyJSON (JObject [(''primary'', JObject (kv primary)),
                                       (''secondary'', JObject (kv secondary))])))))"

definition outgoingAtts :: "CustomerReq \<Rightarrow> gomap" where
  "outgoingAtts req =
     (let m0 = fold (\<lambda>(k, v) m. map_set m k v) (Attributes req) [];
          m1 = (case CreatedAt req of
                  Some t \<Rightarrow> map_set m0 ''created_at'' (JInt (Unix t))
                | None \<Rightarrow> m0);
          m2 = (if Email req \<noteq> [] then map_set m1 ''email'' (JString (Email req)) else m1);
          m3 = (if ID req \<noteq> [] then map_set m2 ''id'' (JString (ID req)) else m2)
      in (case Unsubscribed req of
            Some b \<Rightarrow> map_set m3 ''unsubscribed'' (JBool b)
          | None \<Rightarrow> m3))"

text \<open>
  \<open>AddOrUpdate\<close> takes a pointer to the customer; reading the fields of a nil pointer
  panics before anything is sent.
\<close>

definition AddOrUpdate ::
  "golib \<Rightarrow> CustomerIO \<Rightarrow> string \<Rightarrow> CustomerReq option \<Rightarrow> error option \<times> Request list"
  where
  "AddOrUpdate L c ident req =
     (case req of
        None \<Rightarrow> (Some (Panic ''nil pointer dereference''), [])
      | Some r \<Rightarrow>
          (let url = URL c @ ''/api/v1/customers/'' @ ident
           in err_only (request L c ''PUT'' url (Some (BodyJSON (JObject (outgoingAtts r)))))))"

text \<open>
  The loop of \<open>AddCustomersToSegment\<close> over the customers, with the slice
  \<open>identifiers\<close> as accumulator; the \<open>switch\<close> has no default case.
\<close>

fun appendIdentifiers ::
  "IdentifierType \<Rightarrow> Customer list \<Rightarrow> string list \<Rightarrow> string list" where
  "appendIdentifiers identifier [] identifiers = identifiers"
| "appendIdentifiers identifier (customer # customers) identifiers =
     appendIdentifiers identifier customers
       (if identifier = IdentifierTypeID then identifiers @ [ID customer]
        else if identifier = IdentifierTypeEmail then identifiers @ [Email customer]
        else if identifier = IdentifierTypeCioID then identifiers @ [CioID customer]
        else identifiers)"

definition AddCustomersToSegment ::
  "golib \<Rightarrow> CustomerIO \<Rightarrow> int \<Rightarrow> Customer list \<Rightarrow> IdentifierType \<Rightarrow>
   (nat \<times> error option) \<times> Request list" where
  "AddCustomersToSegment L c segmentID customers identifier =
     (let identifiers = appendIdentifiers identifier customers [];
          r = err_only (request L c ''POST''
                (URL c @ ''/api/v1/segments/'' @ Itoa segmentID @ ''/add_customers?id_type='' @
                 identifier)
                (Some (BodyJSON (JObject [(''ids'', JArray (map JString identifiers))]))))
      in ((length identifiers, fst r), snd r))"

section \<open>The query client (customer.go, custom_object.go)\<close>

text \<open>
  The methods of \<open>APIClient\<close> send through \<open>c.doRequest(ctx, method, url, body)\<close>,
  which returns the response body, the status code and an error. The struct and
  \<open>doRequest\<close> are not among the source files, so \<open>doRequest\<close> is a parameter: any
  function from the three arguments to an error or a body with a status code. The network
  calls of a method are its calls of \<open>doRequest\<close>, returned beside the result.
\<close>

type_synonym call = "string \<times> string \<times> body option"

type_synonym doRequest = "string \<Rightarrow> string \<Rightarrow> body option \<Rightarrow> error + string \<times> int"

text \<open>
  The two results \<open>(js, err)\<close> of a library call such as \<open>strconv.Unquote\<close>, which
  returns the empty string together with every error.
\<close>

definition results :: "error + string \<Rightarrow> string \<times> error option" where
  "results r = (case r of Inl err \<Rightarrow> ([], Some err) | Inr js \<Rightarrow> (js, None))"

text \<open>
  The statements of \<open>CustomerSearch\<close> and \<open>GetCustomer\<close> that fill \<open>attributes\<close>
  from the string field of the envelope (the same text in both).
\<close>

definition legacyAttributeMap :: "golib \<Rightarrow> string \<Rightarrow> error + gomap" where
  "legacyAttributeMap L s =
     (let attributes = [];
          (js, err) = results (strconv_Unquote L s)
      in if err \<noteq> None \<and> js \<noteq> []
         then (case Unmarshal_map L js of Inl err' \<Rightarrow> Inl err' | Inr m \<Rightarrow> Inr m)
         else Inr attributes)"

text \<open>The statements that read \<open>created_at\<close>, a string of seconds, into \<open>thyme\<close>.\<close>

definition legacyCreatedAt :: "golib \<Rightarrow> string \<Rightarrow> error + Time option" where
  "legacyCreatedAt L s =
     (if s \<noteq> []
      then (case strconv_Atoi L s of
              Inl err \<Rightarrow> Inl err
            | Inr createdInt \<Rightarrow> Inr (Some (time_Unix createdInt 0)))
      else Inr None)"

definition CustomerSearch ::
  "golib \<Rightarrow> doRequest \<Rightarrow> string \<Rightarrow> IdentifierType \<Rightarrow> (error + Customer) \<times> call list" where
  "CustomerSearch L doRequest ident idType =
     (let qs = Values_Encode ''id_type'' idType;
          url = ''/v1/customers/'' @ ident @ ''/attributes?'' @ qs;
          calls = [(''GET'', url, None)]
      in (case doRequest ''GET'' url None of
            Inl err \<Rightarrow> (Inl err, calls)
          | Inr (body, statusCode) \<Rightarrow>
              (if statusCode = StatusNotFound then (Inl ErrCustomerNotFound, calls)
               else if statusCode \<noteq> StatusOK
               then (Inl (CustomerIOError statusCode url body), calls)
               else (case Unmarshal_attributes L body of
                       Inl err \<Rightarrow> (Inl err, calls)
                     | Inr resp \<Rightarrow>
                         (case legacyAttributeMap L (la_Attributes resp) of
                            Inl err \<Rightarrow> (Inl err, calls)
                          | Inr attributes \<Rightarrow>
                              (case legacyCreatedAt L (la_CreatedAt resp) of
                                 Inl err \<Rightarrow> (Inl err, calls)
                               | Inr thyme \<Rightarrow>
                                   (Inr \<lparr>Attributes = attributes, CioID = la_CioID resp,
                                         CreatedAt = thyme, Email = la_Email resp,
                                         ID = la_ID resp\<rparr>, calls)))))))"

definition GetCustomer ::
  "golib \<Rightarrow> doRequest \<Rightarrow> string \<Rightarrow> IdentifierType \<Rightarrow> (error + Customer) \<times> call list" where
  "GetCustomer L doRequest ident idType =
     (let qs = Values_Encode ''id_type'' idType;
          url = ''/v1/customers/'' @ ident @ ''/attributes?'' @ qs;
          calls = [(''GET'', url, None)]
      in (case doRequest ''GET'' url None of
            Inl err \<Rightarrow> (Inl err, calls)
          | Inr (body, statusCode) \<Rightarrow>
              (if statusCode = StatusNotFound then (Inl ErrCustomerNotFound, calls)
               else if statusCode \<noteq> StatusOK
               then (Inl (CustomerIOError statusCode url body), calls)
               else (case Unmarshal_attributes L body of
                       Inl err \<Rightarrow> (Inl err, calls)
                     | Inr resp \<Rightarrow>
                         (case legacyAttributeMap L (la_Attributes resp) of
                            Inl err \<Rightarrow> (Inl err, calls)
                          | Inr attributes \<Rightarrow>
                              (case legacyCreatedAt L (la_CreatedAt resp) of
                                 Inl err \<Rightarrow> (Inl err, calls)
                               | Inr thyme \<Rightarrow>
                                   (Inr \<lparr>Attributes = attributes, CioID = la_CioID resp,
                                         CreatedAt = thyme, Email = la_Email resp,
                                         ID = la_ID resp\<rparr>, calls)))))))"

definition LookupCustomersByEmail ::
  "golib \<Rightarrow> doRequest \<Rightarrow> string \<Rightarrow> (error + string list) \<times> call list" where
  "LookupCustomersByEmail L doRequest email =
     (let qs = Values_Encode ''email'' email;
          url = ''/v1/customers?'' @ qs;
          calls = [(''GET'', url, None)]
      in (case doRequest ''GET'' url None of
            Inl err \<Rightarrow> (Inl err, calls)
          | Inr (body, statusCode) \<Rightarrow>
              (if statusCode = StatusNotFound then (Inl ErrCustomerNotFound, calls)
               else if statusCode \<noteq> StatusOK
               then (Inl (CustomerIOError statusCode url body), calls)
               else (case Unmarshal_results L body of
                       Inl err \<Rightarrow> (Inl err, calls)
                     | Inr cioids \<Rightarrow> (Inr cioids, calls)))))"

definition NewEqAttribute :: "string \<Rightarrow> string \<Rightarrow> attributeCondition" where
  "NewEqAttribute field v = \<lparr>Attribute = \<lparr>Field = field, Operator = ''eq'', Value_a = v\<rparr>\<rparr>"

text \<open>
  The map \<open>lookup\<close> of \<open>LookupCustomerioIds\<close> is a function to \<open>string option\<close>;
  reading a missing key of a Go \<open>map[string]string\<close> gives the empty string.
\<close>

definition buildLookup ::
  "golib \<Rightarrow> IdentifierType \<Rightarrow> gomap list \<Rightarrow> (string \<rightharpoonup> string)" where
  "buildLookup L idType identifiers =
     fold (\<lambda>result lookup.
             lookup(fmt_Sprint L (map_index result idType) \<mapsto>
                    fmt_Sprint L (map_index result ''cio_id'')))
          identifiers Map.empty"

definition lookup_index :: "(string \<rightharpoonup> string) \<Rightarrow> string \<Rightarrow> string" where
  "lookup_index lookup k = (case lookup k of None \<Rightarrow> [] | Some v \<Rightarrow> v)"

definition matchKey :: "golib \<Rightarrow> IdentifierType \<Rightarrow> string \<Rightarrow> string" where
  "matchKey L idType ident =
     (if idType = IdentifierTypeEmail then strings_ToLower L ident else ident)"

definition LookupCustomerioIds ::
  "golib \<Rightarrow> doRequest \<Rightarrow> string list \<Rightarrow> IdentifierType \<Rightarrow> (error + string list) \<times> call list"
  where
  "LookupCustomerioIds L doRequest ids idType =
     (if length ids > 1000
      then (Inl (ErrorString ''Can only lookup 1k customers at a time''), [])
      else
        (let conditions = map (NewEqAttribute idType) ids;
             payload = \<lparr>Filter = \<lparr>Or = conditions, And = []\<rparr>\<rparr>;
             url = ''/v1/customers?limit=1000'';
             calls = [(''POST'', url, Some (BodySearch payload))]
         in (case doRequest ''POST'' url (Some (BodySearch payload)) of
               Inl err \<Rightarrow> (Inl err, calls)
             | Inr (body, statusCode) \<Rightarrow>
                 (if statusCode \<noteq> StatusOK
                  then (Inl (CustomerIOError statusCode url body), calls)
                  else (case Unmarshal_identifiers L body of
                          Inl err \<Rightarrow> (Inl err, calls)
                        | Inr identifiers \<Rightarrow>
                            (let lookup = buildLookup L idType identifiers
                             in (Inr (map (\<lambda>ident. lookup_index lookup (matchKey L idType ident))
                                        ids), calls)))))))"

record CustomObject =
  co_ID :: string
  co_Name :: string
  co_Enabled :: bool
  co_SingularName :: string
  co_Slug :: string
  co_SingularSlug :: string

definition ListCustomObjects ::
  "(string \<Rightarrow> error + CustomObject list) \<Rightarrow> doRequest \<Rightarrow>
   (error + CustomObject list) \<times> call list" where
  "ListCustomObjects Unmarshal_types doRequest =
     (let calls = [(''GET'', ''/v1/object_types'', None)]
      in (case doRequest ''GET'' ''/v1/object_types'' None of
            Inl err \<Rightarrow> (Inl err, calls)
          | Inr (body, statusCode) \<Rightarrow>
              (if statusCode \<noteq> StatusOK
               then (Inl (CustomerIOError statusCode ''/v1/object_types'' body), calls)
               else (case Unmarshal_types body of
                       Inl err \<Rightarrow> (Inl err, calls)
                     | Inr types \<Rightarrow> (Inr types, calls)))))"

definition FindCustomObjects ::
  "golib \<Rightarrow> doRequest \<Rightarrow> string \<Rightarrow> gomap \<Rightarrow> (error + string list) \<times> call list" where
  "FindCustomObjects L doRequest objectTypeID filter_m =
     (let payload = BodyJSON (JObject [(''object_type_id'', JString objectTypeID),
                                       (''filter'', JObject filter_m)]);
          calls = [(''POST'', ''/v1/objects'', Some payload)]
      in (case doRequest ''POST'' ''/v1/objects'' (Some payload) of
            Inl err \<Rightarrow> (Inl err, calls)
          | Inr (body, statusCode) \<Rightarrow>
              (if statusCode \<noteq> StatusOK
               then (Inl (CustomerIOError statusCode ''/v1/object_types'' body), calls)
               else (case Unmarshal_ids L body of
                       Inl err \<Rightarrow> (Inl err, calls)
                     | Inr ids \<Rightarrow> (Inr ids, calls)))))"

definition GetCustomObjectAttributes ::
  "golib \<Rightarrow> doRequest \<Rightarrow> string \<Rightarrow> string \<Rightarrow> (error + gomap) \<times> call list" where
  "GetCustomObjectAttributes L doRequest objectTypeID objectID =
     (let url = ''/v1/objects/'' @ objectTypeID @ ''/'' @ objectID @ ''/attributes'';
          calls = [(''GET'', url, None)]
      in (case doRequest ''GET'' url None of
            Inl err \<Rightarrow> (Inl err, calls)
          | Inr (body, statusCode) \<Rightarrow>
              (if statusCode \<noteq> StatusOK
               then (Inl (CustomerIOError statusCode ''/v1/object_types'' body), calls)
               else (case Unmarshal_object_attributes L body of
                       Inl err \<Rightarrow> (Inl err, calls)
                     | Inr attrs \<Rightarrow> (Inr attrs, calls)))))"

section \<open>Encoding and decoding a Customer (customer.go)\<close>

text \<open>
  \<open>Customer.MarshalJSON\<close> marshals an anonymous struct: a field \<open>CreatedAt int64\<close>
  tagged \<open>created_at,omitempty\<close>, and the embedded \<open>Alias\<close> with the fields of
  \<open>Customer\<close>, each tagged \<open>omitempty\<close>. Of the two fields named \<open>created_at\<close>,
  \<open>encoding/json\<close> keeps the less nested one, the \<open>int64\<close>. A field tagged
  \<open>omitempty\<close> is left out when it is 0, the empty string or a map without entries.
  The result is given as the JSON value that the bytes denote, members in struct order.
\<close>

definition omitempty :: "string \<Rightarrow> json \<Rightarrow> bool \<Rightarrow> gomap" where
  "omitempty name v is_empty = (if is_empty then [] else [(name, v)])"

definition MarshalJSON :: "Customer \<Rightarrow> json" where
  "MarshalJSON c =
     (let t = (case CreatedAt c of
                 Some ct \<Rightarrow> (if \<not> IsZero ct then Unix ct else 0)
               | None \<Rightarrow> 0)
      in JObject (omitempty ''created_at'' (JInt t) (t = 0) @
                  omitempty ''attributes'' (JObject (Attributes c)) (Attributes c = []) @
                  omitempty ''cio_id'' (JString (CioID c)) (CioID c = []) @
                  omitempty ''email'' (JString (Email c)) (Email c = []) @
                  omitempty ''id'' (JString (ID c)) (ID c = [])))"

definition object_field :: "json \<Rightarrow> string \<Rightarrow> json option" where
  "object_field j name = (case j of JObject members \<Rightarrow> map_of members name | _ \<Rightarrow> None)"

text \<open>
  The direct decoding path is \<open>json.Unmarshal\<close> into a \<open>Customer\<close>, which has no
  \<open>UnmarshalJSON\<close> of its own: each key of the object is stored into the field tagged
  with that name, other keys are ignored, \<open>null\<close> sets a pointer or a map to nil and
  leaves a string as it is, a value of another JSON type is an error, and
  \<open>created_at\<close> goes through \<open>time.Time.UnmarshalJSON\<close>, which takes a JSON string
  only. Keys are compared exactly here; \<open>encoding/json\<close> also accepts a key that
  differs from the tag in letter case, which no output of \<open>MarshalJSON\<close> has.
\<close>

definition decodeError :: error where
  "decodeError = LibError ''json: cannot unmarshal''"

definition decodeField :: "golib \<Rightarrow> string \<times> json \<Rightarrow> Customer \<Rightarrow> error + Customer" where
  "decodeField L member c =
     (let k = fst member; v = snd member
      in if k = ''attributes'' then
           (case v of
              JObject m \<Rightarrow> Inr (c\<lparr>Attributes := fold (\<lambda>(a, b) acc. map_set acc a b) m (Attributes c)\<rparr>)
            | JNull \<Rightarrow> Inr (c\<lparr>Attributes := []\<rparr>)
            | _ \<Rightarrow> Inl decodeError)
         else if k = ''cio_id'' then
           (case v of JString s \<Rightarrow> Inr (c\<lparr>CioID := s\<rparr>) | JNull \<Rightarrow> Inr c | _ \<Rightarrow> Inl decodeError)
         else if k = ''created_at'' then
           (case v of
              JNull \<Rightarrow> Inr (c\<lparr>CreatedAt := None\<rparr>)
            | JString s \<Rightarrow>
                (case time_UnmarshalJSON L s of
                   None \<Rightarrow> Inl decodeError
                 | Some t \<Rightarrow> Inr (c\<lparr>CreatedAt := Some t\<rparr>))
            | _ \<Rightarrow> Inl decodeError)
         else if k = ''email'' then
           (case v of JString s \<Rightarrow> Inr (c\<lparr>Email := s\<rparr>) | JNull \<Rightarrow> Inr c | _ \<Rightarrow> Inl decodeError)
         else if k = ''id'' then
           (case v of JString s \<Rightarrow> Inr (c\<lparr>ID := s\<rparr>) | JNull \<Rightarrow> Inr c | _ \<Rightarrow> Inl decodeError)
         else Inr c)"

fun decodeFields :: "golib \<Rightarrow> (string \<times> json) list \<Rightarrow> Customer \<Rightarrow> error + Customer" where
  "decodeFields L [] c = Inr c"
| "decodeFields L (member # members) c =
     (case decodeField L member c of Inl err \<Rightarrow> Inl err | Inr c' \<Rightarrow> decodeFields L members c')"

definition Unmarshal_Customer :: "golib \<Rightarrow> json \<Rightarrow> error + Customer" where
  "Unmarshal_Customer L j =
     (case j of
        JObject members \<Rightarrow> decodeFields L members Customer_zero
      | JNull \<Rightarrow> Inr Customer_zero
      | _ \<Rightarrow> Inl decodeError)"

section \<open>A library and a remote service to run the model on\<close>

text \<open>
  The examples below run the model with these stand-ins for the parameters.
  \<open>ex_Unquote\<close> reads a double-quoted ASCII string whose escapes are \<open>\"\<close> and
  \<open>\\\<close>, as \<open>strconv.Unquote\<close> does, and rejects every other input;
  \<open>ex_TrimSpace\<close> and \<open>ex_ToLower\<close> are \<open>strings.TrimSpace\<close> and
  \<open>strings.ToLower\<close> on ASCII strings; \<open>ex_Sprint\<close> is \<open>fmt.Sprint\<close> on nil,
  strings and booleans, which is all the examples print. The \<open>Unmarshal\<close> stand-ins
  answer with the decoded content of the response bodies of the examples, and
  \<open>json_Marshal\<close> with the two bytes of an empty object.
\<close>

fun unquoteBody :: "string \<Rightarrow> string option" where
  "unquoteBody [] = None"
| "unquoteBody [c] = (if c = CHR 0x22 then Some [] else None)"
| "unquoteBody (c # d # s) =
     (if c = CHR 0x5C
      then (if d = CHR 0x22 \<or> d = CHR 0x5C
            then (case unquoteBody s of None \<Rightarrow> None | Some r \<Rightarrow> Some (d # r))
            else None)
      else if c = CHR 0x22 \<or> c = CHR 0x0A \<or> of_char c \<ge> (128 :: nat) then None
      else (case unquoteBody (d # s) of None \<Rightarrow> None | Some r \<Rightarrow> Some (c # r)))"

definition ex_Unquote :: "string \<Rightarrow> error + string" where
  "ex_Unquote s =
     (case s of
        [] \<Rightarrow> Inl (LibError ''invalid syntax'')
      | c # rest \<Rightarrow>
          (if c = CHR 0x22
           then (case unquoteBody rest of
                   None \<Rightarrow> Inl (LibError ''invalid syntax'')
                 | Some r \<Rightarrow> Inr r)
           else Inl (LibError ''invalid syntax'')))"

definition isSpace :: "char \<Rightarrow> bool" where
  "isSpace c = (c \<in> set [CHR 0x09, CHR 0x0A, CHR 0x0B, CHR 0x0C, CHR 0x0D, CHR 0x20])"

definition ex_TrimSpace :: "string \<Rightarrow> string" where
  "ex_TrimSpace s = rev (dropWhile isSpace (rev (dropWhile isSpace s)))"

definition ex_ToLower :: "string \<Rightarrow> string" where
  "ex_ToLower s =
     map (\<lambda>c. if 65 \<le> (of_char c :: nat) \<and> (of_char c :: nat) \<le> 90
               then char_of (of_char c + (32 :: nat)) else c) s"

definition ex_Sprint :: "json \<Rightarrow> string" where
  "ex_Sprint v =
     (case v of
        JNull \<Rightarrow> ''<nil>''
      | JString s \<Rightarrow> s
      | JBool b \<Rightarrow> (if b then ''true'' else ''false'')
      | _ \<Rightarrow> ''?'')"

text \<open>
  The JSON text of an object with the one attribute \<open>plan\<close>, and the envelope that
  carries it as a quoted string with its double quotes escaped.
\<close>

definition ex_attributes_json :: string where
  "ex_attributes_json =
     ''{'' @ [CHR 0x22] @ ''plan'' @ [CHR 0x22] @ '':'' @ [CHR 0x22] @ ''pro'' @ [CHR 0x22] @ ''}''"

definition ex_attributes :: legacyAttributes where
  "ex_attributes =
     \<lparr>la_Attributes = [CHR 0x22] @ ''{'' @ [CHR 0x5C, CHR 0x22] @ ''plan'' @ [CHR 0x5C, CHR 0x22] @
                      '':'' @ [CHR 0x5C, CHR 0x22] @ ''pro'' @ [CHR 0x5C, CHR 0x22] @ ''}'' @
                      [CHR 0x22],
      la_CioID = ''c1'', la_CreatedAt = [], la_Email = ''a@b.c'', la_ID = ''7''\<rparr>"

definition ex_customer :: Customer where
  "ex_customer =
     \<lparr>Attributes = [(''plan'', JString ''pro'')], CioID = [], CreatedAt = None,
      Email = ''a@b.c'', ID = ''7''\<rparr>"

definition ex_identifiers :: "gomap list" where
  "ex_identifiers =
     [[(''email'', JString ''foo@bar.com''), (''cio_id'', JString ''c1'')],
      [(''email'', JString ''x@y.z''), (''cio_id'', JString ''c2'')]]"

definition exLib :: golib where
  "exLib =
     \<lparr>json_Marshal = (\<lambda>b. Inr ''{}''),
      http_NewRequest = (\<lambda>method url. None),
      strings_TrimSpace = ex_TrimSpace,
      strings_ToLower = ex_ToLower,
      fmt_Sprint = ex_Sprint,
      strconv_Unquote = ex_Unquote,
      strconv_Atoi = (\<lambda>s. Inl (LibError ''invalid syntax'')),
      Unmarshal_attributes = (\<lambda>b. Inr ex_attributes),
      Unmarshal_map = (\<lambda>b. Inr [(''plan'', JString ''pro'')]),
      Unmarshal_identifiers = (\<lambda>b. Inr ex_identifiers),
      Unmarshal_results = (\<lambda>b. Inr [''c1'']),
      Unmarshal_ids = (\<lambda>b. Inr [''o1'']),
      Unmarshal_object_attributes = (\<lambda>b. Inr []),
      time_UnmarshalJSON = (\<lambda>s. None)\<rparr>"

text \<open>A remote service that answers every request with the given status and body.\<close>

definition answer :: "int \<Rightarrow> string \<Rightarrow> doRequest" where
  "answer status b = (\<lambda>method url payload. Inr (b, status))"

definition exClient :: "int \<Rightarrow> string \<Rightarrow> CustomerIO" where
  "exClient status b =
     \<lparr>siteID = ''a'', apiKey = ''?'', URL = ''https://track.customer.io'',
      UserAgent = ''Customer.io Go Client'',
      Client = (\<lambda>req. Inr \<lparr>StatusCode = status, resp_Body = Inr b\<rparr>)\<rparr>"

text \<open>Three customers; the second has an email address and no \<open>id\<close>.\<close>

definition ex_customers :: "Customer list" where
  "ex_customers =
     [\<lparr>Attributes = [], CioID = [], CreatedAt = None, Email = ''a@x.io'', ID = ''1''\<rparr>,
      \<lparr>Attributes = [], CioID = [], CreatedAt = None, Email = ''b@x.io'', ID = []\<rparr>,
      \<lparr>Attributes = [], CioID = [], CreatedAt = None, Email = ''c@x.io'', ID = ''3''\<rparr>]"

definition ex_request :: CustomerReq where
  "ex_request =
     \<lparr>Attributes = [], CioID = [], CreatedAt = None, Email = [], ID = [], Unsubscribed = None\<rparr>"

text \<open>The URL of a call of \<open>doRequest\<close>.\<close>

definition call_url :: "call \<Rightarrow> string" where
  "call_url cl = fst (snd cl)"

section \<open>The calls each method makes\<close>

lemma CustomerSearch_calls:
  "snd (CustomerSearch L d ident idType) =
     [(''GET'', ''/v1/customers/'' @ ident @ ''/attributes?'' @ Values_Encode ''id_type'' idType,
       None)]"
  by (simp add: CustomerSearch_def Let_def split: sum.splits prod.splits)

lemma GetCustomer_calls:
  "snd (GetCustomer L d ident idType) =
     [(''GET'', ''/v1/customers/'' @ ident @ ''/attributes?'' @ Values_Encode ''id_type'' idType,
       None)]"
  by (simp add: GetCustomer_def Let_def split: sum.splits prod.splits)

lemma GetCustomObjectAttributes_calls:
  "snd (GetCustomObjectAttributes L d objectTypeID objectID) =
     [(''GET'', ''/v1/objects/'' @ objectTypeID @ ''/'' @ objectID @ ''/attributes'', None)]"
  by (simp add: GetCustomObjectAttributes_def Let_def split: sum.splits prod.splits)

lemma Itoa_7: "Itoa 7 = ''7''"
  by (simp add: Itoa_def digit_char_def char_of_eq_iff)

lemma PathEscape_ex:
  "PathEscape ''a/b'' = ''a%2Fb''" "PathEscape ''t/1'' = ''t%2F1''" "PathEscape ''o?2'' = ''o%3F2''"
  by (simp_all add: PathEscape_def escape_def shouldEscape_def isAlnum_def upperhex_def)

lemma Values_Encode_ex: "Values_Encode ''id_type'' ''id'' = ''id_type=id''"
  by (simp add: Values_Encode_def QueryEscape_def escape_def shouldEscape_def isAlnum_def
      upperhex_def)

lemma request_sent:
  "json_Marshal L b = Inr j \<Longrightarrow> http_NewRequest L method url = None \<Longrightarrow>
   map req_URL (snd (request L c method url (Some b))) = [url]"
  by (simp add: request_def newRequest_def Let_def split: sum.splits)

lemma appendIdentifiers_ex:
  "appendIdentifiers IdentifierTypeID ex_customers [] = [''1'', [], ''3'']"
  by (simp add: ex_customers_def)

section \<open>The authentication token\<close>

text \<open>
  C3. The claim: for every site id and secret key the token is the standard base64
  encoding of \<open>site_id:secret_key\<close>, so that the standard base64 decoding gives that
  string back. \<open>auth\<close> encodes with \<open>base64.URLEncoding\<close>: for the site id \<open>a\<close> and
  the key \<open>?\<close> the token is \<open>YTo_\<close>, the standard encoding of \<open>a:?\<close> is
  \<open>YTo/\<close>, and the standard decoding rejects the token, while it reads \<open>YTo/\<close>
  back as \<open>a:?\<close>.
\<close>

theorem auth_token_is_url_alphabet:
  "auth (exClient 200 ''ok'') = ''YTo_'' \<and>
   EncodeToString encodeStd
     (siteID (exClient 200 ''ok'') @ '':'' @ apiKey (exClient 200 ''ok'')) = ''YTo/'' \<and>
   DecodeString encodeStd (auth (exClient 200 ''ok'')) = None \<and>
   DecodeString encodeStd ''YTo/'' = Some ''a:?''"
  by (simp add: auth_def exClient_def encodeURL_def encodeStd_def DecodeString_def char_of_eq_iff)

section \<open>The URL carried by an API error\<close>

text \<open>
  C6. The claim: a response with a non-success status makes the call fail with an error
  that carries the status code, the URL of the request that was made and the body as it
  came. \<open>FindCustomObjects\<close> posts to \<open>/v1/objects\<close>; on a response with status 500
  and body \<open>boom\<close> its error carries the status and the body, and the URL
  \<open>/v1/object_types\<close>, to which no request was made.
\<close>

theorem FindCustomObjects_error_url:
  "FindCustomObjects L (answer 500 ''boom'') ''t1'' [] =
     (Inl (CustomerIOError 500 ''/v1/object_types'' ''boom''),
      [(''POST'', ''/v1/objects'',
        Some (BodyJSON (JObject [(''object_type_id'', JString ''t1''),
                                 (''filter'', JObject [])])))])"
  by (simp add: FindCustomObjects_def answer_def StatusOK_def)

section \<open>Customers without the selected identifier\<close>

text \<open>
  C7. The claim: \<open>AddCustomersToSegment\<close> leaves out every customer whose value for the
  chosen identifier type is empty and returns the number of identifiers submitted, 2 for
  three customers of which one lacks the identifier. For the three customers of
  \<open>ex_customers\<close> and the type \<open>id\<close>, whatever the library and the client, the list
  handed to the request holds three identifiers, the empty one of the second customer
  among them, and the count returned is 3.
\<close>

theorem AddCustomersToSegment_keeps_empty:
  "AddCustomersToSegment L c 7 ex_customers IdentifierTypeID =
     (let r = err_only (request L c ''POST''
                (URL c @ ''/api/v1/segments/7/add_customers?id_type=id'')
                (Some (BodyJSON (JObject
                   [(''ids'', JArray [JString ''1'', JString [], JString ''3''])]))))
      in ((3, fst r), snd r))"
  unfolding AddCustomersToSegment_def appendIdentifiers_ex Itoa_7
  by (simp add: IdentifierTypeID_def numeral_3_eq_3)

section \<open>Identifiers in URL paths\<close>

text \<open>
  C9. The claim: every method that puts an identifier given by the caller into a URL path
  percent-escapes it first. For the identifier \<open>a/b\<close>, \<open>url.PathEscape\<close> gives
  \<open>a%2Fb\<close>, and \<open>IdentifyCtx\<close> requests the path with \<open>a%2Fb\<close>; \<open>AddOrUpdate\<close>,
  which addresses the same resource, requests the path with \<open>a/b\<close> as it was given, and
  so do \<open>CustomerSearch\<close> and \<open>GetCustomObjectAttributes\<close> with their identifiers.
\<close>

theorem identifiers_not_escaped:
  "map req_URL (snd (AddOrUpdate exLib (exClient 200 ''ok'') ''a/b'' (Some ex_request))) =
     [''https://track.customer.io/api/v1/customers/a/b''] \<and>
   map req_URL (snd (IdentifyCtx exLib (exClient 200 ''ok'') ''a/b'' [])) =
     [''https://track.customer.io/api/v1/customers/a%2Fb''] \<and>
   map call_url (snd (CustomerSearch exLib (answer 200 ''ok'') ''a/b'' IdentifierTypeID)) =
     [''/v1/customers/a/b/attributes?id_type=id''] \<and>
   map call_url (snd (GetCustomObjectAttributes exLib (answer 200 ''ok'') ''t/1'' ''o?2'')) =
     [''/v1/objects/t/1/o?2/attributes''] \<and>
   PathEscape ''a/b'' = ''a%2Fb'' \<and> PathEscape ''t/1'' = ''t%2F1'' \<and>
   PathEscape ''o?2'' = ''o%3F2''"
proof -
  have m: "json_Marshal exLib b = Inr ''{}''" for b
    by (simp add: exLib_def)
  have n: "http_NewRequest exLib meth u = None" for meth u
    by (simp add: exLib_def)
  have base: "URL (exClient 200 ''ok'') = ''https://track.customer.io''"
    by (simp add: exClient_def)
  have "map req_URL (snd (AddOrUpdate exLib (exClient 200 ''ok'') ''a/b'' (Some ex_request))) =
     [''https://track.customer.io/api/v1/customers/a/b'']"
    by (simp add: AddOrUpdate_def err_only_def request_sent [OF m n] base Let_def split: sum.splits)
  moreover have "map req_URL (snd (IdentifyCtx exLib (exClient 200 ''ok'') ''a/b'' [])) =
     [''https://track.customer.io/api/v1/customers/a%2Fb'']"
    by (simp add: IdentifyCtx_def err_only_def request_sent [OF m n] base PathEscape_ex
        split: sum.splits)
  moreover have
    "map call_url (snd (CustomerSearch exLib (answer 200 ''ok'') ''a/b'' IdentifierTypeID)) =
     [''/v1/customers/a/b/attributes?id_type=id'']"
    by (simp add: CustomerSearch_calls call_url_def IdentifierTypeID_def Values_Encode_ex)
  moreover have
    "map call_url (snd (GetCustomObjectAttributes exLib (answer 200 ''ok'') ''t/1'' ''o?2'')) =
     [''/v1/objects/t/1/o?2/attributes'']"
    by (simp add: GetCustomObjectAttributes_calls call_url_def)
  ultimately show ?thesis
    by (simp add: PathEscape_ex)
qed

section \<open>A request that succeeds\<close>

lemma request_ok:
  "json_Marshal L b = Inr j \<Longrightarrow> http_NewRequest L meth u = None \<Longrightarrow>
   Client c \<lparr>req_Method = meth, req_URL = u,
             req_Header = [(''User-Agent'', UserAgent c), (''Content-Type'', ''application/json''),
                           (''Content-Length'', Itoa (int (length j))),
                           (''Authorization'', ''Basic '' @ auth c)],
             req_Body = Some j\<rparr> = Inr \<lparr>StatusCode = 200, resp_Body = Inr rb\<rparr> \<Longrightarrow>
   request L c meth u (Some b) =
     (Inr rb, [\<lparr>req_Method = meth, req_URL = u,
             req_Header = [(''User-Agent'', UserAgent c), (''Content-Type'', ''application/json''),
                           (''Content-Length'', Itoa (int (length j))),
                           (''Authorization'', ''Basic '' @ auth c)],
             req_Body = Some j\<rparr>])"
  by (simp add: request_def newRequest_def StatusOK_def)

lemma Itoa_2: "Itoa 2 = ''2''"
  by (simp add: Itoa_def digit_char_def char_of_eq_iff)

lemma auth_ex: "auth (exClient s b) = ''YTo_''"
  by (simp add: auth_def exClient_def encodeURL_def)

lemma request_ex:
  "request exLib (exClient 200 rb) meth u (Some b) =
     (Inr rb, [\<lparr>req_Method = meth, req_URL = u,
             req_Header = [(''User-Agent'', ''Customer.io Go Client''),
                           (''Content-Type'', ''application/json''),
                           (''Content-Length'', ''2''),
                           (''Authorization'', ''Basic YTo_'')],
             req_Body = Some ''{}''\<rparr>])"
proof -
  have m: "json_Marshal exLib b = Inr ''{}''"
    by (simp add: exLib_def)
  have n: "http_NewRequest exLib meth u = None"
    by (simp add: exLib_def)
  show ?thesis
    using request_ok [OF m n, of "exClient 200 rb" rb]
    by (simp add: Itoa_2 auth_ex) (simp add: exClient_def)
qed

section \<open>Anonymous events\<close>

text \<open>
  C10. \<open>TrackAnonymousCtx\<close> requires only \<open>eventName\<close>: with an empty \<open>eventName\<close> it
  returns \<open>ParamError{eventName}\<close> and sends nothing; with any other \<open>eventName\<close> it
  sends the payload, whatever \<open>anonymousID\<close> is. An empty \<open>anonymousID\<close> leaves the
  payload with the keys \<open>name\<close> and \<open>data\<close> only, without \<open>anonymous_id\<close>; any other
  \<open>anonymousID\<close> is in the payload under that key.
\<close>

theorem TrackAnonymousCtx_requires_eventName:
  "(eventName = [] \<longrightarrow>
      TrackAnonymousCtx L c anonymousID eventName data = (Some (ParamError ''eventName''), [])) \<and>
   (eventName \<noteq> [] \<longrightarrow>
      TrackAnonymousCtx L c anonymousID eventName data =
        err_only (request L c ''POST'' (URL c @ ''/api/v1/events'')
          (Some (BodyJSON (JObject (anonymousPayload anonymousID eventName data)))))) \<and>
   (anonymousID = [] \<longrightarrow>
      anonymousPayload anonymousID eventName data =
        [(''name'', JString eventName), (''data'', JObject data)] \<and>
      map_of (anonymousPayload anonymousID eventName data) ''anonymous_id'' = None) \<and>
   (anonymousID \<noteq> [] \<longrightarrow>
      map_of (anonymousPayload anonymousID eventName data) ''anonymous_id'' =
        Some (JString anonymousID))"
  by (simp add: TrackAnonymousCtx_def anonymousPayload_def)

theorem TrackAnonymousCtx_requires_eventName_witness:
  "TrackAnonymousCtx exLib (exClient 200 ''ok'') ''anon-1'' [] [] =
     (Some (ParamError ''eventName''), []) \<and>
   TrackAnonymousCtx exLib (exClient 200 ''ok'') [] ''purchase'' [] =
     (None, [\<lparr>req_Method = ''POST'', req_URL = ''https://track.customer.io/api/v1/events'',
              req_Header = [(''User-Agent'', ''Customer.io Go Client''),
                            (''Content-Type'', ''application/json''),
                            (''Content-Length'', ''2''),
                            (''Authorization'', ''Basic YTo_'')],
              req_Body = Some ''{}''\<rparr>]) \<and>
   anonymousPayload [] ''purchase'' [] = [(''name'', JString ''purchase''), (''data'', JObject [])] \<and>
   map_of (anonymousPayload [] ''purchase'' []) ''anonymous_id'' = None \<and>
   map_of (anonymousPayload ''anon-1'' ''purchase'' []) ''anonymous_id'' =
     Some (JString ''anon-1'')"
  using TrackAnonymousCtx_requires_eventName [of "[]" exLib "exClient 200 ''ok''" "''anon-1''" "[]"]
    TrackAnonymousCtx_requires_eventName [of "''purchase''" exLib "exClient 200 ''ok''" "[]" "[]"]
    TrackAnonymousCtx_requires_eventName
      [of "''purchase''" exLib "exClient 200 ''ok''" "''anon-1''" "[]"]
  by (simp add: request_ex err_only_def) (simp add: exClient_def)

section \<open>Status codes of the customer lookups\<close>

lemma Values_Encode_email: "Values_Encode ''email'' ''a@b.c'' = ''email=a%40b.c''"
  by (simp add: Values_Encode_def QueryEscape_def escape_def shouldEscape_def isAlnum_def
      upperhex_def)

text \<open>
  C5. When the remote service answers a call of \<open>CustomerSearch\<close>, \<open>GetCustomer\<close> or
  \<open>LookupCustomersByEmail\<close> with status 404, the method returns the sentinel
  \<open>ErrCustomerNotFound\<close>; when it answers with any other status than 200, the method
  returns a \<open>CustomerIOError\<close> with that status, the URL requested and the body.
\<close>

theorem not_found_is_sentinel:
  "(d ''GET'' (''/v1/customers/'' @ ident @ ''/attributes?'' @ Values_Encode ''id_type'' idType)
      None = Inr (body, status) \<longrightarrow>
    (status = 404 \<longrightarrow>
       fst (CustomerSearch L d ident idType) = Inl ErrCustomerNotFound \<and>
       fst (GetCustomer L d ident idType) = Inl ErrCustomerNotFound) \<and>
    (status \<noteq> 404 \<and> status \<noteq> 200 \<longrightarrow>
       fst (CustomerSearch L d ident idType) =
         Inl (CustomerIOError status
               (''/v1/customers/'' @ ident @ ''/attributes?'' @ Values_Encode ''id_type'' idType)
               body) \<and>
       fst (GetCustomer L d ident idType) =
         Inl (CustomerIOError status
               (''/v1/customers/'' @ ident @ ''/attributes?'' @ Values_Encode ''id_type'' idType)
               body))) \<and>
   (d ''GET'' (''/v1/customers?'' @ Values_Encode ''email'' email) None = Inr (body, status) \<longrightarrow>
    (status = 404 \<longrightarrow> fst (LookupCustomersByEmail L d email) = Inl ErrCustomerNotFound) \<and>
    (status \<noteq> 404 \<and> status \<noteq> 200 \<longrightarrow>
       fst (LookupCustomersByEmail L d email) =
         Inl (CustomerIOError status (''/v1/customers?'' @ Values_Encode ''email'' email) body)))"
  by (simp add: CustomerSearch_def GetCustomer_def LookupCustomersByEmail_def StatusNotFound_def
      StatusOK_def Let_def)

theorem not_found_is_sentinel_witness:
  "CustomerSearch exLib (answer 404 ''gone'') ''7'' IdentifierTypeID =
     (Inl ErrCustomerNotFound, [(''GET'', ''/v1/customers/7/attributes?id_type=id'', None)]) \<and>
   fst (GetCustomer exLib (answer 404 ''gone'') ''7'' IdentifierTypeID) =
     Inl ErrCustomerNotFound \<and>
   fst (CustomerSearch exLib (answer 500 ''boom'') ''7'' IdentifierTypeID) =
     Inl (CustomerIOError 500 ''/v1/customers/7/attributes?id_type=id'' ''boom'') \<and>
   fst (GetCustomer exLib (answer 500 ''boom'') ''7'' IdentifierTypeID) =
     Inl (CustomerIOError 500 ''/v1/customers/7/attributes?id_type=id'' ''boom'') \<and>
   fst (LookupCustomersByEmail exLib (answer 404 ''gone'') ''a@b.c'') = Inl ErrCustomerNotFound \<and>
   fst (LookupCustomersByEmail exLib (answer 500 ''boom'') ''a@b.c'') =
     Inl (CustomerIOError 500 ''/v1/customers?email=a%40b.c'' ''boom'')"
  using not_found_is_sentinel [of "answer 404 ''gone''" "''7''" IdentifierTypeID "''gone''" 404
      exLib "''a@b.c''"]
    not_found_is_sentinel [of "answer 500 ''boom''" "''7''" IdentifierTypeID "''boom''" 500
      exLib "''a@b.c''"]
    CustomerSearch_calls [of exLib "answer 404 ''gone''" "''7''" IdentifierTypeID]
  by (simp add: answer_def IdentifierTypeID_def Values_Encode_ex Values_Encode_email
      prod_eq_iff)

section \<open>Required parameters\<close>

lemma LookupCustomersByEmail_calls:
  "snd (LookupCustomersByEmail L d email) =
     [(''GET'', ''/v1/customers?'' @ Values_Encode ''email'' email, None)]"
  by (simp add: LookupCustomersByEmail_def Let_def split: sum.splits prod.splits)

lemma FindCustomObjects_calls:
  "snd (FindCustomObjects L d objectTypeID filter_m) =
     [(''POST'', ''/v1/objects'',
       Some (BodyJSON (JObject [(''object_type_id'', JString objectTypeID),
                                (''filter'', JObject filter_m)])))]"
  by (simp add: FindCustomObjects_def Let_def split: sum.splits prod.splits)

lemma TrimSpace_ex:
  "ex_TrimSpace ''  '' = []" "ex_TrimSpace ''42'' = ''42''"
  by (simp_all add: ex_TrimSpace_def isSpace_def)

text \<open>
  C4. The claim: every endpoint method with required string parameters returns a
  \<open>ParamError\<close> naming the parameter, and sends nothing, when the parameter is the empty
  string. The methods of the query client check nothing: \<open>CustomerSearch\<close> with the empty
  identifier requests \<open>/v1/customers//attributes\<close> and returns the customer that the
  response describes.
\<close>

theorem CustomerSearch_empty_id_is_sent:
  "CustomerSearch exLib (answer 200 ''ok'') [] IdentifierTypeID =
     (Inr \<lparr>Attributes = [], CioID = ''c1'', CreatedAt = None, Email = ''a@b.c'', ID = ''7''\<rparr>,
      [(''GET'', ''/v1/customers//attributes?id_type=id'', None)])"
  by (simp add: CustomerSearch_def answer_def StatusOK_def StatusNotFound_def exLib_def
      ex_attributes_def legacyAttributeMap_def legacyCreatedAt_def results_def ex_Unquote_def
      IdentifierTypeID_def Values_Encode_ex Let_def)

text \<open>
  C4, as the code has it. The methods of the track client that check their parameters
  (\<open>IdentifyCtx\<close>, \<open>TrackCtx\<close>, \<open>TrackAnonymousCtx\<close>, \<open>DeleteCtx\<close>,
  \<open>AddDeviceCtx\<close>, \<open>DeleteDeviceCtx\<close>) return, when a checked parameter is the empty
  string, the \<open>ParamError\<close> that names the first empty one in the order of the checks,
  and send nothing. \<open>MergeCustomersCtx\<close> returns \<open>ParamError{primary}\<close> and sends
  nothing when the type of the primary identifier is not \<open>id\<close>, \<open>email\<close> or
  \<open>cio_id\<close> or its value is empty once trimmed, and \<open>ParamError{secondary}\<close> when
  the primary identifier passes and the secondary one does not. The methods of the query
  client make their one call whatever their string parameters are.
\<close>

theorem required_parameters_checked_first:
  "(customerID = [] \<longrightarrow>
      IdentifyCtx L c customerID attributes = (Some (ParamError ''customerID''), []) \<and>
      TrackCtx L c customerID eventName data = (Some (ParamError ''customerID''), []) \<and>
      DeleteCtx L c customerID = (Some (ParamError ''customerID''), []) \<and>
      AddDeviceCtx L c customerID deviceID platform data = (Some (ParamError ''customerID''), []) \<and>
      DeleteDeviceCtx L c customerID deviceID = (Some (ParamError ''customerID''), [])) \<and>
   (customerID \<noteq> [] \<and> eventName = [] \<longrightarrow>
      TrackCtx L c customerID eventName data = (Some (ParamError ''eventName''), [])) \<and>
   (eventName = [] \<longrightarrow>
      TrackAnonymousCtx L c anonymousID eventName data = (Some (ParamError ''eventName''), [])) \<and>
   (customerID \<noteq> [] \<and> deviceID = [] \<longrightarrow>
      AddDeviceCtx L c customerID deviceID platform data = (Some (ParamError ''deviceID''), []) \<and>
      DeleteDeviceCtx L c customerID deviceID = (Some (ParamError ''deviceID''), [])) \<and>
   (customerID \<noteq> [] \<and> deviceID \<noteq> [] \<and> platform = [] \<longrightarrow>
      AddDeviceCtx L c customerID deviceID platform data = (Some (ParamError ''platform''), [])) \<and>
   (Type primary \<notin> {IdentifierTypeID, IdentifierTypeEmail, IdentifierTypeCioID} \<or>
    strings_TrimSpace L (Value primary) = [] \<longrightarrow>
      MergeCustomersCtx L c primary secondary = (Some (ParamError ''primary''), [])) \<and>
   (Type primary \<in> {IdentifierTypeID, IdentifierTypeEmail, IdentifierTypeCioID} \<and>
    strings_TrimSpace L (Value primary) \<noteq> [] \<and>
    (Type secondary \<notin> {IdentifierTypeID, IdentifierTypeEmail, IdentifierTypeCioID} \<or>
     strings_TrimSpace L (Value secondary) = []) \<longrightarrow>
      MergeCustomersCtx L c primary secondary = (Some (ParamError ''secondary''), [])) \<and>
   length (snd (CustomerSearch L d ident idType)) = 1 \<and>
   length (snd (GetCustomer L d ident idType)) = 1 \<and>
   length (snd (LookupCustomersByEmail L d email)) = 1 \<and>
   length (snd (FindCustomObjects L d objectTypeID filter_m)) = 1 \<and>
   length (snd (GetCustomObjectAttributes L d objectTypeID objectID)) = 1"
  by (auto simp add: IdentifyCtx_def TrackCtx_def DeleteCtx_def AddDeviceCtx_def
      DeleteDeviceCtx_def TrackAnonymousCtx_def MergeCustomersCtx_def validate_def
      CustomerSearch_calls GetCustomer_calls LookupCustomersByEmail_calls
      FindCustomObjects_calls GetCustomObjectAttributes_calls)

theorem required_parameters_checked_first_witness:
  "IdentifyCtx exLib (exClient 200 ''ok'') [] [] = (Some (ParamError ''customerID''), []) \<and>
   TrackCtx exLib (exClient 200 ''ok'') [] ''purchase'' [] = (Some (ParamError ''customerID''), []) \<and>
   DeleteCtx exLib (exClient 200 ''ok'') [] = (Some (ParamError ''customerID''), []) \<and>
   AddDeviceCtx exLib (exClient 200 ''ok'') [] ''d1'' ''ios'' [] =
     (Some (ParamError ''customerID''), []) \<and>
   DeleteDeviceCtx exLib (exClient 200 ''ok'') [] ''d1'' = (Some (ParamError ''customerID''), []) \<and>
   TrackCtx exLib (exClient 200 ''ok'') ''42'' [] [] = (Some (ParamError ''eventName''), []) \<and>
   TrackAnonymousCtx exLib (exClient 200 ''ok'') ''anon-1'' [] [] =
     (Some (ParamError ''eventName''), []) \<and>
   AddDeviceCtx exLib (exClient 200 ''ok'') ''42'' [] ''ios'' [] =
     (Some (ParamError ''deviceID''), []) \<and>
   DeleteDeviceCtx exLib (exClient 200 ''ok'') ''42'' [] = (Some (ParamError ''deviceID''), []) \<and>
   AddDeviceCtx exLib (exClient 200 ''ok'') ''42'' ''d1'' [] [] =
     (Some (ParamError ''platform''), []) \<and>
   MergeCustomersCtx exLib (exClient 200 ''ok'') \<lparr>Type = ''name'', Value = ''42''\<rparr>
     \<lparr>Type = ''id'', Value = ''43''\<rparr> = (Some (ParamError ''primary''), []) \<and>
   MergeCustomersCtx exLib (exClient 200 ''ok'') \<lparr>Type = ''id'', Value = ''  ''\<rparr>
     \<lparr>Type = ''id'', Value = ''43''\<rparr> = (Some (ParamError ''primary''), []) \<and>
   MergeCustomersCtx exLib (exClient 200 ''ok'') \<lparr>Type = ''id'', Value = ''42''\<rparr>
     \<lparr>Type = ''email'', Value = ''  ''\<rparr> = (Some (ParamError ''secondary''), []) \<and>
   MergeCustomersCtx exLib (exClient 200 ''ok'') \<lparr>Type = ''id'', Value = ''42''\<rparr>
     \<lparr>Type = ''object_id'', Value = ''43''\<rparr> = (Some (ParamError ''secondary''), []) \<and>
   length (snd (GetCustomer exLib (answer 200 ''ok'') [] IdentifierTypeID)) = 1"
  using required_parameters_checked_first [of "[]" exLib "exClient 200 ''ok''" "[]" "''purchase''"
      "[]" "''d1''" "''ios''" "''anon-1''" "\<lparr>Type = ''name'', Value = ''42''\<rparr>"
      "\<lparr>Type = ''id'', Value = ''43''\<rparr>" "answer 200 ''ok''" "[]" IdentifierTypeID]
    required_parameters_checked_first [of "''42''" exLib "exClient 200 ''ok''" "[]" "[]"
      "[]" "[]" "''ios''" "''anon-1''" "\<lparr>Type = ''id'', Value = ''  ''\<rparr>"
      "\<lparr>Type = ''id'', Value = ''43''\<rparr>"]
    required_parameters_checked_first [of "''42''" exLib "exClient 200 ''ok''" "[]" "[]"
      "[]" "''d1''" "[]" "''anon-1''" "\<lparr>Type = ''id'', Value = ''42''\<rparr>"
      "\<lparr>Type = ''email'', Value = ''  ''\<rparr>"]
    required_parameters_checked_first [of "''42''" exLib "exClient 200 ''ok''" "[]" "[]"
      "[]" "''d1''" "[]" "''anon-1''" "\<lparr>Type = ''id'', Value = ''42''\<rparr>"
      "\<lparr>Type = ''object_id'', Value = ''43''\<rparr>"]
  by (simp add: exLib_def TrimSpace_ex IdentifierTypeID_def IdentifierTypeEmail_def
      IdentifierTypeCioID_def)

section \<open>The attributes of the legacy search response\<close>

lemma exLib_sel:
  "fmt_Sprint exLib = ex_Sprint" "strings_ToLower exLib = ex_ToLower"
  "strings_TrimSpace exLib = ex_TrimSpace" "strconv_Unquote exLib = ex_Unquote"
  "Unmarshal_identifiers exLib b = Inr ex_identifiers"
  "Unmarshal_attributes exLib b = Inr ex_attributes"
  "Unmarshal_map exLib b = Inr [(''plan'', JString ''pro'')]"
  by (simp_all add: exLib_def)

lemma legacyAttributeMap_empty: "legacyAttributeMap L s = Inr []"
  by (cases "strconv_Unquote L s") (simp_all add: legacyAttributeMap_def results_def)

lemma Unquote_ex: "ex_Unquote (la_Attributes ex_attributes) = Inr ex_attributes_json"
  by (simp add: ex_Unquote_def ex_attributes_def ex_attributes_json_def)

lemma legacyAttributeMap_ex: "legacyAttributeMap exLib (la_Attributes ex_attributes) = Inr []"
  by (simp add: legacyAttributeMap_def exLib_sel Unquote_ex results_def)

text \<open>
  C1. The claim: when the string field \<open>attributes\<close> of the envelope holds escaped JSON,
  \<open>CustomerSearch\<close> and \<open>GetCustomer\<close> unescape it and unmarshal the result into the
  attribute map of the customer they return; when the field is empty the map is empty and
  there is no error. The code unmarshals only if \<open>err != nil && js != ""\<close>, and
  \<open>strconv.Unquote\<close> gives the empty string with every error, so it never unmarshals:
  the statements that fill the map give the empty map for every string, and every
  customer that either method returns has no attributes.
\<close>

theorem legacy_attributes_left_empty:
  "legacyAttributeMap L s = Inr [] \<and>
   (fst (CustomerSearch L d ident idType) = Inr customer \<longrightarrow> Attributes customer = []) \<and>
   (fst (GetCustomer L d ident idType) = Inr customer \<longrightarrow> Attributes customer = [])"
  by (auto simp add: CustomerSearch_def GetCustomer_def legacyAttributeMap_empty Let_def
      split: sum.splits prod.splits if_splits)

text \<open>
  The envelope of \<open>ex_attributes\<close> carries the text of \<open>ex_attributes_json\<close> quoted:
  unquoting succeeds, the text unmarshals to the attribute \<open>plan\<close>, and both methods
  return the customer without it.
\<close>

theorem legacy_attributes_left_empty_witness:
  "strconv_Unquote exLib (la_Attributes ex_attributes) = Inr ex_attributes_json \<and>
   Unmarshal_map exLib ex_attributes_json = Inr [(''plan'', JString ''pro'')] \<and>
   fst (CustomerSearch exLib (answer 200 ''ok'') ''7'' IdentifierTypeID) =
     Inr \<lparr>Attributes = [], CioID = ''c1'', CreatedAt = None, Email = ''a@b.c'', ID = ''7''\<rparr> \<and>
   fst (GetCustomer exLib (answer 200 ''ok'') ''7'' IdentifierTypeID) =
     Inr \<lparr>Attributes = [], CioID = ''c1'', CreatedAt = None, Email = ''a@b.c'', ID = ''7''\<rparr>"
proof -
  have sel: "la_CioID ex_attributes = ''c1''" "la_CreatedAt ex_attributes = []"
    "la_Email ex_attributes = ''a@b.c''" "la_ID ex_attributes = ''7''"
    by (simp_all add: ex_attributes_def)
  have cs: "fst (CustomerSearch exLib (answer 200 ''ok'') ''7'' IdentifierTypeID) =
      Inr \<lparr>Attributes = [], CioID = ''c1'', CreatedAt = None, Email = ''a@b.c'', ID = ''7''\<rparr>"
    by (simp add: CustomerSearch_def answer_def StatusOK_def StatusNotFound_def exLib_sel
        legacyAttributeMap_ex legacyCreatedAt_def Let_def sel)
  have gc: "fst (GetCustomer exLib (answer 200 ''ok'') ''7'' IdentifierTypeID) =
      Inr \<lparr>Attributes = [], CioID = ''c1'', CreatedAt = None, Email = ''a@b.c'', ID = ''7''\<rparr>"
    by (simp add: GetCustomer_def answer_def StatusOK_def StatusNotFound_def exLib_sel
        legacyAttributeMap_ex legacyCreatedAt_def Let_def sel)
  show ?thesis
    using legacy_attributes_left_empty [of exLib "la_Attributes ex_attributes"
        "answer 200 ''ok''" "''7''" IdentifierTypeID
        "\<lparr>Attributes = [], CioID = ''c1'', CreatedAt = None, Email = ''a@b.c'', ID = ''7''\<rparr>"]
      cs gc
    by (simp add: exLib_sel Unquote_ex)
qed

section \<open>Bulk lookup of identifiers\<close>

lemma find_snoc:
  "List.find P (xs @ [x]) = (case List.find P xs of None \<Rightarrow> (if P x then Some x else None) | Some y \<Rightarrow> Some y)"
  by (induction xs) auto

lemma buildLookup_find:
  "fold (\<lambda>result lookup. lookup(key result \<mapsto> val result)) identifiers m k =
     (case List.find (\<lambda>result. key result = k) (rev identifiers) of
        None \<Rightarrow> m k
      | Some result \<Rightarrow> Some (val result))"
proof (induction identifiers arbitrary: m)
  case Nil
  then show ?case by simp
next
  case (Cons r rs)
  let ?f = "\<lambda>result lookup. lookup(key result \<mapsto> val result)"
  have "fold ?f (r # rs) m k = fold ?f rs (m(key r \<mapsto> val r)) k"
    by (simp only: fold_simps comp_apply)
  also have "\<dots> = (case List.find (\<lambda>result. key result = k) (rev rs) of
        None \<Rightarrow> (m(key r \<mapsto> val r)) k
      | Some result \<Rightarrow> Some (val result))"
    by (rule Cons.IH)
  also have "\<dots> = (case List.find (\<lambda>result. key result = k) (rev (r # rs)) of
        None \<Rightarrow> m k
      | Some result \<Rightarrow> Some (val result))"
    by (simp add: find_snoc split: option.splits)
  finally show ?case .
qed

lemma lookup_index_buildLookup:
  "lookup_index (buildLookup L idType identifiers) k =
     (case List.find (\<lambda>result. fmt_Sprint L (map_index result idType) = k) (rev identifiers) of
        None \<Rightarrow> []
      | Some result \<Rightarrow> fmt_Sprint L (map_index result ''cio_id''))"
  unfolding lookup_index_def buildLookup_def
  by (simp add: buildLookup_find split: option.splits)

text \<open>
  C2. With more than 1000 identifiers \<open>LookupCustomerioIds\<close> fails with the error
  "Can only lookup 1k customers at a time" and calls nothing. With at most 1000, when the
  remote service answers the search with status 200 and the body decodes to the list
  \<open>identifiers\<close>, the result has the length of \<open>ids\<close> and at each position the
  \<open>cio_id\<close> of the last of the \<open>identifiers\<close> whose field of the requested type
  prints as the identifier at that position, lowercased first when the type is
  \<open>email\<close>, and the empty string when there is none.
\<close>

theorem LookupCustomerioIds_result:
  "(length ids > 1000 \<longrightarrow>
      LookupCustomerioIds L d ids idType =
        (Inl (ErrorString ''Can only lookup 1k customers at a time''), [])) \<and>
   (length ids \<le> 1000 \<and>
    d ''POST'' ''/v1/customers?limit=1000''
      (Some (BodySearch \<lparr>Filter = \<lparr>Or = map (NewEqAttribute idType) ids, And = []\<rparr>\<rparr>)) =
      Inr (body, 200) \<and>
    Unmarshal_identifiers L body = Inr identifiers \<longrightarrow>
      (\<exists>result. fst (LookupCustomerioIds L d ids idType) = Inr result \<and>
         length result = length ids \<and>
         (\<forall>i < length ids.
            result ! i =
              (case List.find
                      (\<lambda>r. fmt_Sprint L (map_index r idType) =
                             (if idType = IdentifierTypeEmail then strings_ToLower L (ids ! i)
                              else ids ! i))
                      (rev identifiers) of
                 None \<Rightarrow> []
               | Some r \<Rightarrow> fmt_Sprint L (map_index r ''cio_id'')))))"
  by (simp add: LookupCustomerioIds_def StatusOK_def Let_def lookup_index_buildLookup matchKey_def)


lemma ToLower_ex:
  "ex_ToLower ''Foo@Bar.com'' = ''foo@bar.com''" "ex_ToLower ''nobody'' = ''nobody''"
  "ex_ToLower ''x@y.z'' = ''x@y.z''"
  by (simp_all add: ex_ToLower_def char_of_eq_iff)

lemma list3: "length xs = 3 \<Longrightarrow> xs = [xs ! 0, xs ! 1, xs ! 2]"
  by (auto simp add: numeral_3_eq_3 length_Suc_conv)

theorem LookupCustomerioIds_result_witness:
  "LookupCustomerioIds exLib (answer 200 ''ok'') (replicate 1001 ''x'') IdentifierTypeEmail =
     (Inl (ErrorString ''Can only lookup 1k customers at a time''), []) \<and>
   fst (LookupCustomerioIds exLib (answer 200 ''ok'') [''Foo@Bar.com'', ''nobody'', ''x@y.z'']
          IdentifierTypeEmail) = Inr [''c1'', [], ''c2'']"
proof -
  let ?ids = "[''Foo@Bar.com'', ''nobody'', ''x@y.z'']"
  let ?run = "LookupCustomerioIds exLib (answer 200 ''ok'') ?ids IdentifierTypeEmail"
  have big: "LookupCustomerioIds exLib (answer 200 ''ok'') (replicate 1001 ''x'')
       IdentifierTypeEmail = (Inl (ErrorString ''Can only lookup 1k customers at a time''), [])"
    using LookupCustomerioIds_result [of "replicate 1001 ''x''" exLib "answer 200 ''ok''"
        IdentifierTypeEmail]
    by simp
  have "\<exists>result. fst ?run = Inr result \<and> length result = length ?ids \<and>
         (\<forall>i < length ?ids.
            result ! i =
              (case List.find
                      (\<lambda>r. ex_Sprint (map_index r IdentifierTypeEmail) = ex_ToLower (?ids ! i))
                      (rev ex_identifiers) of
                 None \<Rightarrow> []
               | Some r \<Rightarrow> ex_Sprint (map_index r ''cio_id'')))"
    using LookupCustomerioIds_result [of ?ids exLib "answer 200 ''ok''" IdentifierTypeEmail
        "''ok''" ex_identifiers, unfolded exLib_sel]
    by (simp add: answer_def)
  then obtain result where
    r: "fst ?run = Inr result"
    and len: "length result = 3"
    and nth: "\<And>i. i < 3 \<Longrightarrow> result ! i =
              (case List.find
                      (\<lambda>r. ex_Sprint (map_index r IdentifierTypeEmail) = ex_ToLower (?ids ! i))
                      (rev ex_identifiers) of
                 None \<Rightarrow> []
               | Some r \<Rightarrow> ex_Sprint (map_index r ''cio_id''))"
    by auto
  have "result ! 0 = ''c1''" "result ! 1 = []" "result ! 2 = ''c2''"
    using nth [of 0] nth [of 1] nth [of 2]
    by (simp_all add: ex_identifiers_def ToLower_ex map_index_def ex_Sprint_def
        IdentifierTypeEmail_def)
  with list3 [OF len] have "result = [''c1'', [], ''c2'']"
    by simp
  with r big show ?thesis
    by simp
qed

section \<open>The creation time on the wire\<close>

text \<open>
  C8. The claim: a customer whose \<open>CreatedAt\<close> is unset is encoded and decoded back to a
  customer whose \<open>CreatedAt\<close> is unset, and the encoding always renders \<open>CreatedAt\<close>
  as an integer of epoch seconds, zero if unset. The field that \<open>MarshalJSON\<close> renders
  is tagged \<open>omitempty\<close>: for a customer without \<open>CreatedAt\<close> the object has no key
  \<open>created_at\<close>, rather than the key with 0. An object that had the key with 0 would
  not decode on the direct path.
\<close>

theorem unset_CreatedAt_is_omitted:
  "MarshalJSON \<lparr>Attributes = [], CioID = [], CreatedAt = None, Email = ''a@b.c'', ID = ''7''\<rparr> =
     JObject [(''email'', JString ''a@b.c''), (''id'', JString ''7'')] \<and>
   object_field
     (MarshalJSON \<lparr>Attributes = [], CioID = [], CreatedAt = None, Email = ''a@b.c'', ID = ''7''\<rparr>)
     ''created_at'' = None \<and>
   Unmarshal_Customer exLib
     (JObject [(''created_at'', JInt 0), (''email'', JString ''a@b.c''), (''id'', JString ''7'')]) =
     Inl decodeError"
  by (simp add: MarshalJSON_def omitempty_def object_field_def Unmarshal_Customer_def
      decodeField_def)

lemma decodeFields_append:
  "decodeFields L (xs @ ys) c =
     (case decodeFields L xs c of Inl err \<Rightarrow> Inl err | Inr c' \<Rightarrow> decodeFields L ys c')"
  by (induction xs arbitrary: c) (auto split: sum.splits)

lemma decode_omitempty_string:
  "k = ''cio_id'' \<or> k = ''email'' \<or> k = ''id'' \<Longrightarrow>
   \<exists>c'. decodeFields L (omitempty k (JString s) e) c = Inr c' \<and> CreatedAt c' = CreatedAt c"
  by (auto simp add: omitempty_def decodeField_def Let_def)

lemma decode_omitempty_attributes:
  "\<exists>c'. decodeFields L (omitempty ''attributes'' (JObject m) e) c = Inr c' \<and>
        CreatedAt c' = CreatedAt c"
  by (simp add: omitempty_def decodeField_def Let_def)

text \<open>
  C8, as the code has it. A customer whose \<open>CreatedAt\<close> is unset is encoded and decoded
  back, on the direct path, to a customer whose \<open>CreatedAt\<close> is unset. The encoding has
  no key \<open>created_at\<close> when \<open>CreatedAt\<close> is unset or is the zero time, which
  \<open>MarshalJSON\<close> tests with \<open>IsZero\<close>; it has the key with the integer of epoch
  seconds when \<open>CreatedAt\<close> is set to a time that is not the zero time and whose epoch
  seconds are not 0; and the value under the key is never a string. Nothing is said of a
  set time whose epoch seconds are 0.
\<close>

theorem CreatedAt_encoding:
  "(CreatedAt c = None \<longrightarrow>
      (\<exists>c'. Unmarshal_Customer L (MarshalJSON c) = Inr c' \<and> CreatedAt c' = None) \<and>
      object_field (MarshalJSON c) ''created_at'' = None) \<and>
   (CreatedAt c = Some t \<and> IsZero t \<longrightarrow>
      object_field (MarshalJSON c) ''created_at'' = None) \<and>
   (CreatedAt c = Some t \<and> \<not> IsZero t \<and> Unix t \<noteq> 0 \<longrightarrow>
      object_field (MarshalJSON c) ''created_at'' = Some (JInt (Unix t))) \<and>
   object_field (MarshalJSON c) ''created_at'' \<noteq> Some (JString s)"
proof -
  have unset_enc: "object_field (MarshalJSON c) ''created_at'' = None"
    if "CreatedAt c = None"
    using that by (simp add: MarshalJSON_def object_field_def omitempty_def)
  have zero_enc: "object_field (MarshalJSON c) ''created_at'' = None"
    if "CreatedAt c = Some t" "IsZero t"
    using that by (simp add: MarshalJSON_def object_field_def omitempty_def)
  have set_enc: "object_field (MarshalJSON c) ''created_at'' = Some (JInt (Unix t))"
    if "CreatedAt c = Some t" "\<not> IsZero t" "Unix t \<noteq> 0"
    using that by (simp add: MarshalJSON_def object_field_def omitempty_def)
  have no_string: "object_field (MarshalJSON c) ''created_at'' \<noteq> Some (JString s)"
    by (simp add: MarshalJSON_def object_field_def omitempty_def Let_def split: option.splits)
  have dec: "\<exists>c'. Unmarshal_Customer L (MarshalJSON c) = Inr c' \<and> CreatedAt c' = None"
    if unset: "CreatedAt c = None"
  proof -
    obtain c1 where 1: "decodeFields L
        (omitempty ''attributes'' (JObject (Attributes c)) (Attributes c = [])) Customer_zero = Inr c1"
      "CreatedAt c1 = None"
      using decode_omitempty_attributes [of L "Attributes c" "Attributes c = []" Customer_zero]
      by (auto simp add: Customer_zero_def)
    obtain c2 where 2: "decodeFields L (omitempty ''cio_id'' (JString (CioID c)) (CioID c = [])) c1 =
        Inr c2" "CreatedAt c2 = None"
      using decode_omitempty_string [of "''cio_id''" L "CioID c" "CioID c = []" c1] 1(2)
      by auto
    obtain c3 where 3: "decodeFields L (omitempty ''email'' (JString (Email c)) (Email c = [])) c2 =
        Inr c3" "CreatedAt c3 = None"
      using decode_omitempty_string [of "''email''" L "Email c" "Email c = []" c2] 2(2)
      by auto
    obtain c4 where 4: "decodeFields L (omitempty ''id'' (JString (ID c)) (ID c = [])) c3 =
        Inr c4" "CreatedAt c4 = None"
      using decode_omitempty_string [of "''id''" L "ID c" "ID c = []" c3] 3(2)
      by auto
    have "Unmarshal_Customer L (MarshalJSON c) = Inr c4"
      using unset 1(1) 2(1) 3(1) 4(1)
      by (simp add: Unmarshal_Customer_def MarshalJSON_def decodeFields_append
          omitempty_def [of "''created_at''"])
    with 4(2) show ?thesis
      by blast
  qed
  from unset_enc zero_enc set_enc no_string dec show ?thesis
    by blast
qed

theorem CreatedAt_encoding_witness:
  "Unmarshal_Customer exLib (MarshalJSON ex_customer) = Inr ex_customer \<and>
   CreatedAt ex_customer = None \<and>
   object_field (MarshalJSON ex_customer) ''created_at'' = None \<and>
   IsZero (time_Unix (- 62135596800) 0) \<and>
   object_field (MarshalJSON (ex_customer\<lparr>CreatedAt := Some (time_Unix (- 62135596800) 0)\<rparr>))
     ''created_at'' = None \<and>
   \<not> IsZero (time_Unix 1700000000 0) \<and>
   object_field (MarshalJSON (ex_customer\<lparr>CreatedAt := Some (time_Unix 1700000000 0)\<rparr>))
     ''created_at'' = Some (JInt 1700000000) \<and>
   object_field (MarshalJSON (ex_customer\<lparr>CreatedAt := Some (time_Unix 1700000000 0)\<rparr>))
     ''created_at'' \<noteq> Some (JString ''2023-11-14T22:13:20Z'')"
proof -
  have rt: "Unmarshal_Customer exLib (MarshalJSON ex_customer) = Inr ex_customer"
    by (simp add: MarshalJSON_def omitempty_def Unmarshal_Customer_def decodeField_def
        ex_customer_def Customer_zero_def)
  show ?thesis
    using CreatedAt_encoding [where c = ex_customer and L = exLib]
      CreatedAt_encoding
        [where c = "ex_customer\<lparr>CreatedAt := Some (time_Unix (- 62135596800) 0)\<rparr>"
         and t = "time_Unix (- 62135596800) 0" and L = exLib]
      CreatedAt_encoding
        [where c = "ex_customer\<lparr>CreatedAt := Some (time_Unix 1700000000 0)\<rparr>"
         and t = "time_Unix 1700000000 0" and L = exLib and s = "''2023-11-14T22:13:20Z''"]
      rt
    by (simp add: ex_customer_def time_Unix_def IsZero_def Unix_def)
qed

end
